theory Spec2Isabelle
  imports Complex_Main "HOL-Library.Multiset"
begin

section \<open>Python values and operators used by metrics.py\<close>

text \<open>
  Python integers are unbounded: they are \<^typ>\<open>int\<close>. The results of true division
  (\<^verbatim>\<open>/\<close>) and of \<^verbatim>\<open>statistics.mean\<close> are modelled by the exact quotient,
  a \<^typ>\<open>rat\<close>; the rounding of the quotient to a float is not part of the model.
  Exceptions are values: a computation that can raise returns \<open>py_error + 'a\<close>,
  with \<open>Inl\<close> for the exception. Python's \<^verbatim>\<open>None\<close> is \<open>None\<close> of an option type.
\<close>

datatype py_error = ZeroDivisionError | StatisticsError

text \<open>\<^verbatim>\<open>a / b\<close>: raises ZeroDivisionError when the divisor is zero.\<close>

definition truediv :: "rat \<Rightarrow> rat \<Rightarrow> py_error + rat" where
  "truediv a b = (if b = 0 then Inl ZeroDivisionError else Inr (a / b))"

text \<open>\<^verbatim>\<open>statistics.mean\<close> on a list of integers: raises StatisticsError on no data.\<close>

definition mean :: "int list \<Rightarrow> py_error + rat" where
  "mean xs = (if xs = [] then Inl StatisticsError
              else Inr (of_int (sum_list xs) / of_int (int (length xs))))"

text \<open>
  A Python \<^verbatim>\<open>range\<close> object with its three attributes. \<open>range_len\<close> is the length
  CPython computes for it and \<open>range_elems\<close> the members in iteration order. A range
  with step 0 cannot be constructed in Python; \<open>range_elems\<close> gives it no member.
\<close>

record py_range =
  start :: int
  stop :: int
  step :: int

definition range_len :: "py_range \<Rightarrow> int" where
  "range_len r =
     (if 0 < step r \<and> start r < stop r then (stop r - start r - 1) div step r + 1
      else if step r < 0 \<and> stop r < start r then (start r - stop r - 1) div (- step r) + 1
      else 0)"

definition range_elems :: "py_range \<Rightarrow> int list" where
  "range_elems r = map (\<lambda>k. start r + int k * step r) [0..<nat (range_len r)]"

section \<open>The entities metrics.py reads\<close>

text \<open>
  The modules \<^verbatim>\<open>lang\<close> and \<^verbatim>\<open>compare_unoptimized\<close> define the program model and the
  comparison engine. metrics.py only calls accessors on their objects; each object
  is a record of what the accessors it calls return, the field named as the accessor.
\<close>

text \<open>Modelled from the spec: the AddressType tags of \<^verbatim>\<open>lang\<close>, which are absolute
  (global), stack, and the other kinds (register storage among them).\<close>

datatype AddressType = ABSOLUTE | STACK | OTHER_ADDRTYPE nat

record Address =
  get_addrtype :: AddressType

record Variable =
  is_param :: bool
  is_single_loc :: bool

record DataType =
  get_metatype :: int
  get_num_elements :: int

record Varnode =
  get_addr :: Address
  get_var :: "Variable option"
  get_size :: int
  get_datatype :: DataType

record VarnodeCompare2 =
  get_left :: Varnode
  get_right :: Varnode

record VarnodeCompareRecord =
  get_varnode :: Varnode
  get_compare_level :: int
  bytes_overlapped :: int
  get_comparisons :: "VarnodeCompare2 list"

record 'f FunctionCompareRecord =
  get_unoptimized_function :: 'f
  is_comparison :: bool

text \<open>
  The comparison object (class UnoptimizedProgramInfoCompare2) and the constants of
  \<^verbatim>\<open>VarnodeCompareLevel\<close>, \<^verbatim>\<open>DataTypeCompareLevel\<close> and \<^verbatim>\<open>MetaType\<close> are not part of
  metrics.py. They are parameters: \<open>'c\<close> is the type of comparison objects, \<open>'f\<close>
  the type of function objects, and a value of the record below gives the methods of
  the comparison object and the constants that metrics.py uses.
\<close>

record ('c, 'f) upstream =
  flip :: "'c \<Rightarrow> 'c"
  select_function_compare_records :: "'c \<Rightarrow> 'f FunctionCompareRecord list"
  select_varnode_compare_records ::
    "'c \<Rightarrow> (VarnodeCompareRecord \<Rightarrow> bool) \<Rightarrow> VarnodeCompareRecord list"
  select_primitive_varnode_compare_records ::
    "'c \<Rightarrow> (VarnodeCompareRecord \<Rightarrow> bool) \<Rightarrow> VarnodeCompareRecord list"
  select_varnode_comparisons ::
    "'c \<Rightarrow> (VarnodeCompareRecord \<Rightarrow> bool) \<Rightarrow> (VarnodeCompare2 \<Rightarrow> bool) \<Rightarrow> VarnodeCompare2 list"
  VarnodeCompareLevel_range :: py_range
  VarnodeCompareLevel_NO_MATCH :: int
  DataTypeCompareLevel_range :: py_range
  MetaType_ARRAY :: int

section \<open>Class Metric\<close>

text \<open>
  A Metric object holds a display name and a compute function. The class defines
  \<^verbatim>\<open>__hash__\<close> and no \<^verbatim>\<open>__eq__\<close>, so \<^verbatim>\<open>==\<close> on two Metric objects is Python's default
  comparison of objects, which is identity. The identity of an object is the field
  \<open>ident\<close>: the constructor takes the next free identity and returns the object
  together with the identity after it. \<open>'k\<close> is the type of callables and \<open>h\<close>
  the builtin \<^verbatim>\<open>hash\<close> on them.
\<close>

record 'k Metric =
  ident :: nat
  display_name :: string
  compute :: 'k

definition Metric_init :: "nat \<Rightarrow> string \<Rightarrow> 'k \<Rightarrow> 'k Metric \<times> nat" where
  "Metric_init next_ident name f =
     (\<lparr>ident = next_ident, display_name = name, compute = f\<rparr>, Suc next_ident)"

definition Metric_hash :: "('k \<Rightarrow> int) \<Rightarrow> 'k Metric \<Rightarrow> int" where
  "Metric_hash h self = h (compute self)"

definition Metric_eq :: "'k Metric \<Rightarrow> 'k Metric \<Rightarrow> bool" where
  "Metric_eq self other = (ident self = ident other)"

section \<open>Utility functions\<close>

text \<open>
  Names that start with an underscore in the source are written here with a
  trailing prime: \<^verbatim>\<open>_varnodes_avg_compare_level\<close> is \<open>varnodes_avg_compare_level'\<close>.
\<close>

text \<open>The function returned by \<^verbatim>\<open>normalize_range(r)\<close>, applied to \<open>x\<close>. The test for
  None comes before the division, so None never raises.\<close>

definition normalize_range :: "py_range \<Rightarrow> rat option \<Rightarrow> py_error + rat option" where
  "normalize_range r x =
     (case x of
        None \<Rightarrow> Inr None
      | Some v \<Rightarrow>
          (case truediv (v - of_int (start r)) (of_int (stop r - step r - start r)) of
             Inl e \<Rightarrow> Inl e
           | Inr q \<Rightarrow> Inr (Some q)))"

definition varnode_compare_level_to_normalized_score ::
  "('c, 'f) upstream \<Rightarrow> rat option \<Rightarrow> py_error + rat option" where
  "varnode_compare_level_to_normalized_score U lvl =
     normalize_range (VarnodeCompareLevel_range U) lvl"

definition datatype_compare_level_to_normalized_score ::
  "('c, 'f) upstream \<Rightarrow> rat option \<Rightarrow> py_error + rat option" where
  "datatype_compare_level_to_normalized_score U lvl =
     normalize_range (DataTypeCompareLevel_range U) lvl"

definition variable_base_filter :: "Variable \<Rightarrow> bool" where
  "variable_base_filter var = (\<not> is_param var \<and> is_single_loc var)"

definition varnode_base_filter :: "Varnode \<Rightarrow> bool" where
  "varnode_base_filter varnode =
     (let parent_var = get_var varnode
      in get_addrtype (get_addr varnode) \<in> set [ABSOLUTE, STACK]
         \<and> (case parent_var of Some v \<Rightarrow> variable_base_filter v | None \<Rightarrow> True))"

definition varnode_compare_record_base_filter :: "VarnodeCompareRecord \<Rightarrow> bool" where
  "varnode_compare_record_base_filter record = varnode_base_filter (get_varnode record)"

text \<open>The source memoizes this function with \<^verbatim>\<open>lru_cache\<close>; it reads the comparison
  object only, so the cached list is the computed one.\<close>

definition select_comparable_varnode_compare_records ::
  "('c, 'f) upstream \<Rightarrow> 'c \<Rightarrow> bool \<Rightarrow> VarnodeCompareRecord list" where
  "select_comparable_varnode_compare_records U cmp primitive =
     (let method = (if primitive then select_primitive_varnode_compare_records U cmp
                    else select_varnode_compare_records U cmp)
      in method varnode_compare_record_base_filter)"

definition select_comparable_varnodes ::
  "('c, 'f) upstream \<Rightarrow> 'c \<Rightarrow> bool \<Rightarrow> bool \<Rightarrow> Varnode list" where
  "select_comparable_varnodes U cmp left primitive =
     (let cmp' = (if left then cmp else flip U cmp)
      in map get_varnode (select_comparable_varnode_compare_records U cmp' primitive))"

section \<open>Bytes\<close>

definition varnodes_truth :: "('c, 'f) upstream \<Rightarrow> 'c \<Rightarrow> bool \<Rightarrow> Varnode list" where
  "varnodes_truth U cmp primitive = select_comparable_varnodes U cmp True primitive"

definition varnodes_decomp :: "('c, 'f) upstream \<Rightarrow> 'c \<Rightarrow> bool \<Rightarrow> Varnode list" where
  "varnodes_decomp U cmp primitive = select_comparable_varnodes U cmp False primitive"

definition bytes_truth :: "('c, 'f) upstream \<Rightarrow> 'c \<Rightarrow> int" where
  "bytes_truth U cmp = sum_list (map get_size (varnodes_truth U cmp False))"

definition bytes_found :: "('c, 'f) upstream \<Rightarrow> 'c \<Rightarrow> int" where
  "bytes_found U cmp =
     (let found = sum_list (map bytes_overlapped
                    (select_comparable_varnode_compare_records U cmp False))
      in min found (bytes_truth U cmp))"

definition bytes_missed :: "('c, 'f) upstream \<Rightarrow> 'c \<Rightarrow> int" where
  "bytes_missed U cmp = max (bytes_truth U cmp - bytes_found U cmp) 0"

text \<open>The compute function of the metric "Bytes recovery fraction" in
  \<^verbatim>\<open>make_metrics\<close>: \<^verbatim>\<open>lambda cmp: bytes_found(cmp) / bytes_truth(cmp)\<close>.\<close>

definition bytes_recovery_fraction :: "('c, 'f) upstream \<Rightarrow> 'c \<Rightarrow> py_error + rat" where
  "bytes_recovery_fraction U cmp =
     truediv (of_int (bytes_found U cmp)) (of_int (bytes_truth U cmp))"

section \<open>Functions\<close>

definition functions_found :: "('c, 'f) upstream \<Rightarrow> 'c \<Rightarrow> 'f list" where
  "functions_found U cmp =
     map get_unoptimized_function
       (filter (\<lambda>record. is_comparison record) (select_function_compare_records U cmp))"

definition functions_missed :: "('c, 'f) upstream \<Rightarrow> 'c \<Rightarrow> 'f list" where
  "functions_missed U cmp =
     map get_unoptimized_function
       (filter (\<lambda>record. \<not> is_comparison record) (select_function_compare_records U cmp))"

definition functions_extraneous :: "('c, 'f) upstream \<Rightarrow> 'c \<Rightarrow> 'f list" where
  "functions_extraneous U cmp = functions_missed U (flip U cmp)"

section \<open>Varnodes\<close>

definition varnode_compare_records_match_levels' ::
  "VarnodeCompareRecord list \<Rightarrow> int list \<Rightarrow> VarnodeCompareRecord list" where
  "varnode_compare_records_match_levels' varnode_cmp_records levels =
     filter (\<lambda>record. get_compare_level record \<in> set levels) varnode_cmp_records"

definition varnode_compare_records_matched_at_level' ::
  "VarnodeCompareRecord list \<Rightarrow> int \<Rightarrow> VarnodeCompareRecord list" where
  "varnode_compare_records_matched_at_level' varnode_cmp_records level =
     filter (\<lambda>record. get_compare_level record = level) varnode_cmp_records"

definition varnode_compare_records_match_levels ::
  "('c, 'f) upstream \<Rightarrow> 'c \<Rightarrow> int list \<Rightarrow> bool \<Rightarrow> VarnodeCompareRecord list" where
  "varnode_compare_records_match_levels U cmp levels primitive =
     varnode_compare_records_match_levels'
       (select_comparable_varnode_compare_records U cmp primitive) levels"

definition varnode_compare_records_matched_at_level ::
  "('c, 'f) upstream \<Rightarrow> 'c \<Rightarrow> int \<Rightarrow> bool \<Rightarrow> VarnodeCompareRecord list" where
  "varnode_compare_records_matched_at_level U cmp level primitive =
     varnode_compare_records_matched_at_level'
       (select_comparable_varnode_compare_records U cmp primitive) level"

definition varnodes_missed :: "('c, 'f) upstream \<Rightarrow> 'c \<Rightarrow> bool \<Rightarrow> Varnode list" where
  "varnodes_missed U cmp primitive =
     map get_varnode
       (varnode_compare_records_match_levels U cmp [VarnodeCompareLevel_NO_MATCH U] primitive)"

definition varnodes_extraneous :: "('c, 'f) upstream \<Rightarrow> 'c \<Rightarrow> bool \<Rightarrow> Varnode list" where
  "varnodes_extraneous U cmp primitive = varnodes_missed U (flip U cmp) primitive"

definition varnodes_avg_compare_level' :: "VarnodeCompareRecord list \<Rightarrow> py_error + rat option" where
  "varnodes_avg_compare_level' varnode_cmp_records =
     (let compare_levels = map get_compare_level varnode_cmp_records
      in if 0 < length compare_levels
         then (case mean compare_levels of Inl e \<Rightarrow> Inl e | Inr m \<Rightarrow> Inr (Some m))
         else Inr None)"

definition varnodes_avg_compare_level ::
  "('c, 'f) upstream \<Rightarrow> 'c \<Rightarrow> bool \<Rightarrow> py_error + rat option" where
  "varnodes_avg_compare_level U cmp primitive =
     varnodes_avg_compare_level' (select_comparable_varnode_compare_records U cmp primitive)"

definition varnodes_avg_compare_score ::
  "('c, 'f) upstream \<Rightarrow> 'c \<Rightarrow> bool \<Rightarrow> py_error + rat option" where
  "varnodes_avg_compare_score U cmp primitive =
     (case varnodes_avg_compare_level U cmp primitive of
        Inl e \<Rightarrow> Inl e
      | Inr lvl \<Rightarrow> varnode_compare_level_to_normalized_score U lvl)"

section \<open>Type-specific varnode comparisons\<close>

definition select_comparable_varnode_compare_records_metatype' ::
  "('c, 'f) upstream \<Rightarrow> 'c \<Rightarrow> int \<Rightarrow> bool \<Rightarrow> VarnodeCompareRecord list" where
  "select_comparable_varnode_compare_records_metatype' U cmp metatype primitive =
     filter (\<lambda>record. get_metatype (get_datatype (get_varnode record)) = metatype)
       (select_comparable_varnode_compare_records U cmp primitive)"

definition varnodes_avg_compare_level_metatype ::
  "('c, 'f) upstream \<Rightarrow> 'c \<Rightarrow> int \<Rightarrow> bool \<Rightarrow> py_error + rat option" where
  "varnodes_avg_compare_level_metatype U cmp metatype primitive =
     varnodes_avg_compare_level'
       (select_comparable_varnode_compare_records_metatype' U cmp metatype primitive)"

definition varnodes_avg_compare_score_metatype ::
  "('c, 'f) upstream \<Rightarrow> 'c \<Rightarrow> int \<Rightarrow> bool \<Rightarrow> py_error + rat option" where
  "varnodes_avg_compare_score_metatype U cmp metatype primitive =
     (case varnodes_avg_compare_level_metatype U cmp metatype primitive of
        Inl e \<Rightarrow> Inl e
      | Inr lvl \<Rightarrow> varnode_compare_level_to_normalized_score U lvl)"

section \<open>Arrays\<close>

definition array_comparisons :: "('c, 'f) upstream \<Rightarrow> 'c \<Rightarrow> VarnodeCompare2 list" where
  "array_comparisons U cmp =
     select_varnode_comparisons U cmp varnode_compare_record_base_filter
       (\<lambda>record. get_metatype (get_datatype (get_left record)) = MetaType_ARRAY U
                \<and> get_metatype (get_datatype (get_right record)) = MetaType_ARRAY U)"

text \<open>The list comprehension \<^verbatim>\<open>[ f(cmp2) for cmp2 in cmps ]\<close> for an \<open>f\<close> that can
  raise: the first exception ends it.\<close>

fun map_raising :: "('a \<Rightarrow> py_error + 'b) \<Rightarrow> 'a list \<Rightarrow> py_error + 'b list" where
  "map_raising f [] = Inr []"
| "map_raising f (x # xs) =
     (case f x of
        Inl e \<Rightarrow> Inl e
      | Inr y \<Rightarrow> (case map_raising f xs of Inl e \<Rightarrow> Inl e | Inr ys \<Rightarrow> Inr (y # ys)))"

text \<open>\<^verbatim>\<open>statistics.mean\<close> on the values that the error-ratio functions return.\<close>

definition mean_rat :: "rat list \<Rightarrow> py_error + rat" where
  "mean_rat xs = (if xs = [] then Inl StatisticsError
                  else Inr (sum_list xs / of_int (int (length xs))))"

definition summarize_array_comparisons' ::
  "VarnodeCompare2 list \<Rightarrow> (VarnodeCompare2 \<Rightarrow> py_error + rat) \<Rightarrow> py_error + rat option" where
  "summarize_array_comparisons' cmps f =
     (if cmps \<noteq> []
      then (case map_raising f cmps of
              Inl e \<Rightarrow> Inl e
            | Inr vs \<Rightarrow> (case mean_rat vs of Inl e \<Rightarrow> Inl e | Inr m \<Rightarrow> Inr (Some m)))
      else Inr None)"

definition mean_over_array_comparisons ::
  "('c, 'f) upstream \<Rightarrow> 'c \<Rightarrow> (VarnodeCompare2 \<Rightarrow> py_error + rat) \<Rightarrow> py_error + rat option" where
  "mean_over_array_comparisons U cmp f = summarize_array_comparisons' (array_comparisons U cmp) f"

definition array_elements_diff :: "VarnodeCompare2 \<Rightarrow> int" where
  "array_elements_diff cmp =
     get_num_elements (get_datatype (get_left cmp)) - get_num_elements (get_datatype (get_right cmp))"

definition array_elements_error :: "VarnodeCompare2 \<Rightarrow> int" where
  "array_elements_error cmp = \<bar>array_elements_diff cmp\<bar>"

definition array_elements_error_ratio :: "VarnodeCompare2 \<Rightarrow> py_error + rat" where
  "array_elements_error_ratio cmp =
     truediv (of_int (array_elements_error cmp))
       (of_int (get_num_elements (get_datatype (get_left cmp))))"

text \<open>\<^verbatim>\<open>_array_dimension_match_ratio\<close> divides only when the list is not empty and
  returns None otherwise; the number of dimensions of each side is taken as a
  function \<open>dims\<close> of the varnode.\<close>

definition array_dimension_match_ratio' ::
  "(Varnode \<Rightarrow> int) \<Rightarrow> VarnodeCompare2 list \<Rightarrow> py_error + rat option" where
  "array_dimension_match_ratio' dims cmps =
     (let dim_matches = length (filter (\<lambda>cmp. dims (get_left cmp) = dims (get_right cmp)) cmps)
      in if 0 < length cmps
         then (case truediv (of_int (int dim_matches)) (of_int (int (length cmps))) of
                 Inl e \<Rightarrow> Inl e
               | Inr q \<Rightarrow> Inr (Some q))
         else Inr None)"

section \<open>A comparison object for the examples\<close>

text \<open>Modelled from the spec: the comparison object of \<^verbatim>\<open>compare_unoptimized\<close>, which
  is not part of metrics.py. A comparison holds the compare records seen from the
  ground truth and those seen from the decompiler; \<^verbatim>\<open>flip\<close> swaps the two, each
  \<^verbatim>\<open>select\<close> method filters the records of the first by the conditions it is given,
  and the compare levels are densely numbered from NO_MATCH upwards. The examples
  below are evaluated on it.\<close>

record example_view =
  view_functions :: "string FunctionCompareRecord list"
  view_varnodes :: "VarnodeCompareRecord list"
  view_primitive_varnodes :: "VarnodeCompareRecord list"

type_synonym example_compare = "example_view \<times> example_view"

definition example_upstream :: "(example_compare, string) upstream" where
  "example_upstream =
     \<lparr>flip = (\<lambda>c. (snd c, fst c)),
      select_function_compare_records = (\<lambda>c. view_functions (fst c)),
      select_varnode_compare_records = (\<lambda>c cond. filter cond (view_varnodes (fst c))),
      select_primitive_varnode_compare_records =
        (\<lambda>c cond. filter cond (view_primitive_varnodes (fst c))),
      select_varnode_comparisons =
        (\<lambda>c cond cond2.
           filter cond2 (concat (map get_comparisons (filter cond (view_varnodes (fst c)))))),
      VarnodeCompareLevel_range = \<lparr>start = 0, stop = 5, step = 1\<rparr>,
      VarnodeCompareLevel_NO_MATCH = 0,
      DataTypeCompareLevel_range = \<lparr>start = 0, stop = 4, step = 1\<rparr>,
      MetaType_ARRAY = 4\<rparr>"

definition mk_varnode :: "AddressType \<Rightarrow> Variable option \<Rightarrow> int \<Rightarrow> int \<Rightarrow> int \<Rightarrow> Varnode" where
  "mk_varnode addrtype parent_var sz metatype num_elements =
     \<lparr>get_addr = \<lparr>get_addrtype = addrtype\<rparr>, get_var = parent_var, get_size = sz,
      get_datatype = \<lparr>get_metatype = metatype, get_num_elements = num_elements\<rparr>\<rparr>"

definition mk_record :: "Varnode \<Rightarrow> int \<Rightarrow> int \<Rightarrow> VarnodeCompare2 list \<Rightarrow> VarnodeCompareRecord" where
  "mk_record varnode level overlapped comparisons =
     \<lparr>get_varnode = varnode, get_compare_level = level, bytes_overlapped = overlapped,
      get_comparisons = comparisons\<rparr>"

definition local_variable :: Variable where
  "local_variable = \<lparr>is_param = False, is_single_loc = True\<rparr>"

definition param_variable :: Variable where
  "param_variable = \<lparr>is_param = True, is_single_loc = True\<rparr>"

text \<open>A stack local of 4 bytes, a global of 8 bytes, a register varnode and a
  parameter on the stack.\<close>

definition stack_varnode :: Varnode where
  "stack_varnode = mk_varnode STACK (Some local_variable) 4 0 0"

definition global_varnode :: Varnode where
  "global_varnode = mk_varnode ABSOLUTE None 8 0 0"

definition register_varnode :: Varnode where
  "register_varnode = mk_varnode (OTHER_ADDRTYPE 0) (Some local_variable) 8 0 0"

definition param_varnode :: Varnode where
  "param_varnode = mk_varnode STACK (Some param_variable) 4 0 0"

text \<open>Ground truth: two functions, of which \<open>main\<close> is matched, and compare records
  for the four varnodes; the eligible ones overlap the decompiler's varnodes in 4
  bytes each. Decompiler: \<open>main\<close> and an unmatched function, and one stack varnode
  that matches nothing.\<close>

definition truth_view :: example_view where
  "truth_view =
     \<lparr>view_functions =
        [\<lparr>get_unoptimized_function = ''main'', is_comparison = True\<rparr>,
         \<lparr>get_unoptimized_function = ''helper'', is_comparison = False\<rparr>],
      view_varnodes =
        [mk_record stack_varnode 4 4 [], mk_record global_varnode 0 4 [],
         mk_record register_varnode 2 8 [], mk_record param_varnode 4 4 []],
      view_primitive_varnodes = [mk_record stack_varnode 4 4 []]\<rparr>"

definition decomp_view :: example_view where
  "decomp_view =
     \<lparr>view_functions =
        [\<lparr>get_unoptimized_function = ''main'', is_comparison = True\<rparr>,
         \<lparr>get_unoptimized_function = ''thunk'', is_comparison = False\<rparr>],
      view_varnodes = [mk_record stack_varnode 4 4 [], mk_record (mk_varnode STACK None 2 0 0) 0 0 []],
      view_primitive_varnodes = [mk_record stack_varnode 4 4 []]\<rparr>"

definition example_cmp :: example_compare where
  "example_cmp = (truth_view, decomp_view)"

text \<open>A ground truth whose only varnode lives in a register: no varnode is eligible.\<close>

definition register_only_view :: example_view where
  "register_only_view =
     \<lparr>view_functions = [], view_varnodes = [mk_record register_varnode 2 8 []],
      view_primitive_varnodes = []\<rparr>"

definition register_only_cmp :: example_compare where
  "register_only_cmp = (register_only_view, register_only_view)"

text \<open>A global array of no elements (a zero-length array) that the decompiler
  recovered as an array of 8 elements.\<close>

definition empty_array_cmp2 :: VarnodeCompare2 where
  "empty_array_cmp2 =
     \<lparr>get_left = mk_varnode ABSOLUTE None 0 4 0, get_right = mk_varnode ABSOLUTE None 32 4 8\<rparr>"

definition empty_array_view :: example_view where
  "empty_array_view =
     \<lparr>view_functions = [],
      view_varnodes = [mk_record (mk_varnode ABSOLUTE None 0 4 0) 1 0 [empty_array_cmp2]],
      view_primitive_varnodes = []\<rparr>"

definition empty_array_cmp :: example_compare where
  "empty_array_cmp = (empty_array_view, empty_array_view)"

section \<open>Agreement of two comparison objects\<close>

text \<open>Two comparison objects agree on everything the missed and extraneous metrics
  read: the function compare records, and the comparable varnode compare records
  of both granularities. Two observationally equivalent comparisons agree in this
  sense.\<close>

definition same_compare_records :: "('c, 'f) upstream \<Rightarrow> 'c \<Rightarrow> 'c \<Rightarrow> bool" where
  "same_compare_records U c d =
     (select_function_compare_records U c = select_function_compare_records U d
      \<and> select_comparable_varnode_compare_records U c False
          = select_comparable_varnode_compare_records U d False
      \<and> select_comparable_varnode_compare_records U c True
          = select_comparable_varnode_compare_records U d True)"

section \<open>Facts about Python ranges and lists\<close>

lemma range_len_pos_step: "0 < range_len r \<Longrightarrow> step r \<noteq> 0"
  by (auto simp: range_len_def split: if_splits)

lemma distinct_range_elems: "distinct (range_elems r)"
proof (cases "0 < range_len r")
  case True
  then have s: "step r \<noteq> 0" by (rule range_len_pos_step)
  have "inj (\<lambda>k. start r + int k * step r)"
    using s by (auto simp: inj_on_def)
  then show ?thesis
    unfolding range_elems_def by (simp add: distinct_map inj_on_def)
next
  case False
  then show ?thesis by (simp add: range_elems_def)
qed

lemma sum_list_indicator:
  "distinct ls \<Longrightarrow>
   sum_list (map (\<lambda>l. if x = l then 1 else 0) ls) = (if x \<in> set ls then 1 else (0::nat))"
  by (induction ls) auto

lemma sum_list_length_filter_levels:
  assumes d: "distinct ls" and m: "\<forall>r \<in> set rs. lv r \<in> set ls"
  shows "sum_list (map (\<lambda>l. length (filter (\<lambda>r. lv r = l) rs)) ls) = length rs"
  using m
proof (induction rs)
  case Nil
  then show ?case by (induction ls) auto
next
  case (Cons a rs)
  have split: "(\<lambda>l. length (filter (\<lambda>r. lv r = l) (a # rs))) =
        (\<lambda>l. (if lv a = l then 1 else 0) + length (filter (\<lambda>r. lv r = l) rs))"
    by auto
  have "sum_list (map (\<lambda>l. length (filter (\<lambda>r. lv r = l) (a # rs))) ls)
      = sum_list (map (\<lambda>l. if lv a = l then 1 else 0) ls)
        + sum_list (map (\<lambda>l. length (filter (\<lambda>r. lv r = l) rs)) ls)"
    unfolding split by (simp add: sum_list_addf)
  also have "\<dots> = 1 + length rs"
    using Cons d by (simp add: sum_list_indicator)
  finally show ?case by simp
qed

lemma mset_map_filter_compl:
  "mset (map f (filter P xs)) + mset (map f (filter (\<lambda>x. \<not> P x) xs)) = mset (map f xs)"
  by (induction xs) auto

lemma normalize_range_dense:
  assumes s: "step r = 1" and two: "start r + 1 < stop r"
  shows "normalize_range r (Some x)
           = Inr (Some ((x - of_int (start r)) / of_int (stop r - 1 - start r)))"
    and "(0::rat) < of_int (stop r - 1 - start r)"
proof -
  from two have "stop r - 1 - start r \<noteq> 0" by simp
  then show "normalize_range r (Some x)
           = Inr (Some ((x - of_int (start r)) / of_int (stop r - 1 - start r)))"
    using s by (simp add: normalize_range_def truediv_def)
  from two show "(0::rat) < of_int (stop r - 1 - start r)" by simp
qed

lemmas example_defs =
  example_upstream_def example_cmp_def truth_view_def decomp_view_def mk_varnode_def
  mk_record_def local_variable_def param_variable_def stack_varnode_def global_varnode_def
  register_varnode_def param_varnode_def register_only_view_def register_only_cmp_def
  empty_array_cmp2_def empty_array_view_def empty_array_cmp_def

lemmas filter_defs =
  variable_base_filter_def varnode_base_filter_def varnode_compare_record_base_filter_def
  select_comparable_varnode_compare_records_def select_comparable_varnodes_def

section \<open>The example comparison, evaluated\<close>

lemma example_comparable_records:
  "select_comparable_varnode_compare_records example_upstream example_cmp False
     = [mk_record stack_varnode 4 4 [], mk_record global_varnode 0 4 []]"
  by (simp add: filter_defs example_defs)

lemma register_only_comparable_records:
  "select_comparable_varnode_compare_records example_upstream register_only_cmp primitive = []"
  by (simp add: filter_defs example_defs)

lemma example_bytes_truth: "bytes_truth example_upstream example_cmp = 12"
  by (simp add: bytes_truth_def varnodes_truth_def select_comparable_varnodes_def
      example_comparable_records)
    (simp add: example_defs)

lemma example_bytes_found: "bytes_found example_upstream example_cmp = 8"
  by (simp add: bytes_found_def example_bytes_truth example_comparable_records)
    (simp add: example_defs)

lemma example_range_elems:
  "range_elems (VarnodeCompareLevel_range example_upstream) = [0, 1, 2, 3, 4]"
  by (simp add: range_elems_def range_len_def example_upstream_def upt_rec)

section \<open>Undefined ratios\<close>

text \<open>
  Claim C1 says that a ratio with a zero divisor is returned as an explicit undefined
  result and not raised. The code divides without a test. On a ground truth with no
  eligible varnode \<open>bytes_truth\<close> is 0 and the bytes recovery fraction raises
  ZeroDivisionError; on an array comparison whose left side has 0 elements
  \<open>array_elements_error_ratio\<close> raises ZeroDivisionError, and the mean over the
  array comparisons raises with it. The sibling \<open>array_dimension_match_ratio'\<close>
  tests its divisor and returns None.
\<close>

theorem undefined_ratio_raises:
  "bytes_truth example_upstream register_only_cmp = 0
   \<and> bytes_recovery_fraction example_upstream register_only_cmp = Inl ZeroDivisionError
   \<and> get_num_elements (get_datatype (get_left empty_array_cmp2)) = 0
   \<and> array_elements_error_ratio empty_array_cmp2 = Inl ZeroDivisionError
   \<and> array_comparisons example_upstream empty_array_cmp = [empty_array_cmp2]
   \<and> mean_over_array_comparisons example_upstream empty_array_cmp array_elements_error_ratio
       = Inl ZeroDivisionError
   \<and> array_dimension_match_ratio' dims [] = Inr None"
proof (intro conjI)
  show t: "bytes_truth example_upstream register_only_cmp = 0"
    by (simp add: bytes_truth_def varnodes_truth_def select_comparable_varnodes_def
        register_only_comparable_records)
  show "bytes_recovery_fraction example_upstream register_only_cmp = Inl ZeroDivisionError"
    by (simp add: bytes_recovery_fraction_def truediv_def t)
  show "get_num_elements (get_datatype (get_left empty_array_cmp2)) = 0"
    by (simp add: example_defs)
  show r: "array_elements_error_ratio empty_array_cmp2 = Inl ZeroDivisionError"
    by (simp add: array_elements_error_ratio_def truediv_def example_defs)
  show a: "array_comparisons example_upstream empty_array_cmp = [empty_array_cmp2]"
    by (simp add: array_comparisons_def filter_defs example_defs)
  show "mean_over_array_comparisons example_upstream empty_array_cmp array_elements_error_ratio
       = Inl ZeroDivisionError"
    by (simp add: mean_over_array_comparisons_def summarize_array_comparisons'_def a r)
  show "array_dimension_match_ratio' dims [] = Inr None"
    by (simp add: array_dimension_match_ratio'_def)
qed

section \<open>Bytes\<close>

text \<open>
  Claim C2: for every comparison, \<open>bytes_found\<close> is at most \<open>bytes_truth\<close> and
  \<open>bytes_missed\<close> is not negative; and when \<open>bytes_truth\<close> is positive and no
  comparable record has a negative \<open>bytes_overlapped\<close>, the bytes recovery fraction
  is computed without an exception and lies between 0 and 1.
\<close>

theorem bytes_bounds:
  "bytes_found U cmp \<le> bytes_truth U cmp \<and> 0 \<le> bytes_missed U cmp \<and>
   (0 < bytes_truth U cmp \<and>
    (\<forall>record \<in> set (select_comparable_varnode_compare_records U cmp False).
       0 \<le> bytes_overlapped record)
    \<longrightarrow> (\<exists>q. bytes_recovery_fraction U cmp = Inr q \<and> 0 \<le> q \<and> q \<le> 1))"
proof (intro conjI impI)
  show le: "bytes_found U cmp \<le> bytes_truth U cmp"
    by (simp add: bytes_found_def Let_def)
  show "0 \<le> bytes_missed U cmp"
    by (simp add: bytes_missed_def)
  assume h: "0 < bytes_truth U cmp \<and>
    (\<forall>record \<in> set (select_comparable_varnode_compare_records U cmp False).
       0 \<le> bytes_overlapped record)"
  then have "0 \<le> sum_list (map bytes_overlapped
                    (select_comparable_varnode_compare_records U cmp False))"
    by (intro sum_list_nonneg) auto
  with h have nonneg: "0 \<le> bytes_found U cmp"
    by (simp add: bytes_found_def Let_def)
  from h have pos: "(0::rat) < of_int (bytes_truth U cmp)" by simp
  have "bytes_recovery_fraction U cmp
          = Inr (of_int (bytes_found U cmp) / of_int (bytes_truth U cmp))"
    using h by (simp add: bytes_recovery_fraction_def truediv_def)
  moreover have "(0::rat) \<le> of_int (bytes_found U cmp) / of_int (bytes_truth U cmp)"
    using nonneg pos by simp
  moreover have "(of_int (bytes_found U cmp) / of_int (bytes_truth U cmp) :: rat) \<le> 1"
    using le pos by simp
  ultimately show "\<exists>q. bytes_recovery_fraction U cmp = Inr q \<and> 0 \<le> q \<and> q \<le> 1"
    by blast
qed

theorem bytes_bounds_witness:
  "0 < bytes_truth example_upstream example_cmp
   \<and> list_all (\<lambda>record. 0 \<le> bytes_overlapped record)
       (select_comparable_varnode_compare_records example_upstream example_cmp False)
   \<and> bytes_found example_upstream example_cmp \<le> bytes_truth example_upstream example_cmp
   \<and> 0 \<le> bytes_missed example_upstream example_cmp
   \<and> (\<exists>q. bytes_recovery_fraction example_upstream example_cmp = Inr q \<and> 0 \<le> q \<and> q \<le> 1)"
proof -
  have pos: "0 < bytes_truth example_upstream example_cmp"
    by (simp add: example_bytes_truth)
  have ov: "list_all (\<lambda>record. 0 \<le> bytes_overlapped record)
       (select_comparable_varnode_compare_records example_upstream example_cmp False)"
    by (simp add: example_comparable_records) (simp add: example_defs)
  from ov have "\<forall>record \<in> set (select_comparable_varnode_compare_records
                    example_upstream example_cmp False). 0 \<le> bytes_overlapped record"
    by (simp add: list_all_iff)
  with pos bytes_bounds [of example_upstream example_cmp] ov show ?thesis
    by blast
qed

section \<open>Missed and extraneous\<close>

text \<open>
  Claim C3: when flipping a comparison twice gives a comparison that agrees with the
  first one, the missed functions of a comparison are the extraneous functions of
  its flip, and for each granularity the missed varnodes of a comparison are the
  extraneous varnodes of its flip.
\<close>

theorem missed_is_extraneous_of_flip:
  assumes "same_compare_records U (flip U (flip U cmp)) cmp"
  shows "functions_missed U cmp = functions_extraneous U (flip U cmp)
         \<and> varnodes_missed U cmp primitive = varnodes_extraneous U (flip U cmp) primitive"
proof
  show "functions_missed U cmp = functions_extraneous U (flip U cmp)"
    using assms by (simp add: functions_extraneous_def functions_missed_def same_compare_records_def)
  have "select_comparable_varnode_compare_records U (flip U (flip U cmp)) primitive
          = select_comparable_varnode_compare_records U cmp primitive"
    using assms by (cases primitive) (simp_all add: same_compare_records_def)
  then show "varnodes_missed U cmp primitive = varnodes_extraneous U (flip U cmp) primitive"
    by (simp add: varnodes_extraneous_def varnodes_missed_def
        varnode_compare_records_match_levels_def)
qed

theorem missed_is_extraneous_of_flip_witness:
  "same_compare_records example_upstream
     (flip example_upstream (flip example_upstream example_cmp)) example_cmp
   \<and> functions_extraneous example_upstream (flip example_upstream example_cmp) = [''helper'']
   \<and> varnodes_extraneous example_upstream (flip example_upstream example_cmp) False
       = [global_varnode]"
proof -
  have ff: "flip example_upstream (flip example_upstream example_cmp) = example_cmp"
    by (simp add: example_upstream_def)
  have h: "same_compare_records example_upstream
     (flip example_upstream (flip example_upstream example_cmp)) example_cmp"
    by (simp add: ff same_compare_records_def)
  have f: "functions_missed example_upstream example_cmp = [''helper'']"
    by (simp add: functions_missed_def example_defs)
  have v: "varnodes_missed example_upstream example_cmp False = [global_varnode]"
    by (simp add: varnodes_missed_def varnode_compare_records_match_levels_def
        varnode_compare_records_match_levels'_def example_comparable_records)
      (simp add: example_defs)
  from missed_is_extraneous_of_flip [OF h, of False] h f v show ?thesis
    by simp
qed

section \<open>Comparable varnodes of the recovered side\<close>

text \<open>
  Claim C4: for every comparison and granularity, the comparable varnodes of the
  right (recovered) side are the varnodes of the comparable varnode compare records
  of the flipped comparison, that is, the ground-truth-side comparable varnodes of
  the flipped comparison.
\<close>

theorem recovered_side_comparable_varnodes:
  "select_comparable_varnodes U cmp False primitive
     = map get_varnode (select_comparable_varnode_compare_records U (flip U cmp) primitive)
   \<and> select_comparable_varnodes U cmp False primitive
     = select_comparable_varnodes U (flip U cmp) True primitive
   \<and> varnodes_decomp U cmp primitive = varnodes_truth U (flip U cmp) primitive"
  by (simp add: select_comparable_varnodes_def varnodes_decomp_def varnodes_truth_def)

theorem recovered_side_comparable_varnodes_witness:
  "select_comparable_varnodes example_upstream example_cmp False False
     = [stack_varnode, mk_varnode STACK None 2 0 0]"
proof -
  have "map get_varnode (select_comparable_varnode_compare_records example_upstream
          (flip example_upstream example_cmp) False)
        = [stack_varnode, mk_varnode STACK None 2 0 0]"
    by (simp add: filter_defs example_defs)
  with recovered_side_comparable_varnodes [of example_upstream example_cmp False]
  show ?thesis by simp
qed

section \<open>Normalization of compare levels\<close>

text \<open>
  Claim C5: for each of the two compare-level scales, the varnode scale and the
  datatype scale, the normalization maps None to None, the minimum level to 0, the
  maximum level to 1, is monotonic non-decreasing, and maps every level between the
  minimum and the maximum into the interval from 0 to 1. A scale is a range of step
  1 with at least two levels; its minimum is \<open>start\<close> and its maximum \<open>stop - 1\<close>.
\<close>

theorem normalized_score_of_scale:
  assumes scale: "r = VarnodeCompareLevel_range U \<and> f = varnode_compare_level_to_normalized_score U
                  \<or> r = DataTypeCompareLevel_range U \<and> f = datatype_compare_level_to_normalized_score U"
    and dense: "step r = 1" and two: "start r + 1 < stop r"
  shows "f None = Inr None
         \<and> f (Some (of_int (start r))) = Inr (Some 0)
         \<and> f (Some (of_int (stop r - 1))) = Inr (Some 1)
         \<and> (\<forall>x y. x \<le> y \<longrightarrow>
               (\<exists>p q. f (Some x) = Inr (Some p) \<and> f (Some y) = Inr (Some q) \<and> p \<le> q))
         \<and> (\<forall>x. of_int (start r) \<le> x \<and> x \<le> of_int (stop r - 1) \<longrightarrow>
               (\<exists>q. f (Some x) = Inr (Some q) \<and> 0 \<le> q \<and> q \<le> 1))"
proof -
  from scale have f: "f = normalize_range r"
    by (auto simp: varnode_compare_level_to_normalized_score_def
        datatype_compare_level_to_normalized_score_def)
  note val = normalize_range_dense(1) [OF dense two]
  note pos = normalize_range_dense(2) [OF dense two]
  have none: "f None = Inr None"
    by (simp add: f normalize_range_def)
  have lo: "f (Some (of_int (start r))) = Inr (Some 0)"
    by (simp add: f val)
  have "(of_int (stop r - 1) - of_int (start r) :: rat) = of_int (stop r - 1 - start r)"
    by simp
  with pos have hi: "f (Some (of_int (stop r - 1))) = Inr (Some 1)"
    by (simp add: f val del: of_int_diff)
  have mono: "\<exists>p q. f (Some x) = Inr (Some p) \<and> f (Some y) = Inr (Some q) \<and> p \<le> q"
    if "x \<le> y" for x y
  proof -
    from that pos
    have "(x - of_int (start r)) / of_int (stop r - 1 - start r)
            \<le> (y - of_int (start r)) / of_int (stop r - 1 - start r)"
      by (intro divide_right_mono) simp_all
    then show ?thesis
      unfolding f val by blast
  qed
  have bounds: "\<exists>q. f (Some x) = Inr (Some q) \<and> 0 \<le> q \<and> q \<le> 1"
    if "of_int (start r) \<le> x \<and> x \<le> of_int (stop r - 1)" for x
  proof -
    from that pos have "0 \<le> (x - of_int (start r)) / of_int (stop r - 1 - start r)"
      by simp
    moreover from that have "x - of_int (start r) \<le> of_int (stop r - 1 - start r)"
      by simp
    with pos have "(x - of_int (start r)) / of_int (stop r - 1 - start r) \<le> 1"
      by (simp add: divide_le_eq del: of_int_diff)
    ultimately show ?thesis
      unfolding f val by blast
  qed
  from none lo hi mono bounds show ?thesis by blast
qed

theorem normalized_score_of_scale_witness:
  "step (VarnodeCompareLevel_range example_upstream) = 1
   \<and> start (VarnodeCompareLevel_range example_upstream) + 1
       < stop (VarnodeCompareLevel_range example_upstream)
   \<and> varnode_compare_level_to_normalized_score example_upstream None = Inr None
   \<and> varnode_compare_level_to_normalized_score example_upstream (Some 0) = Inr (Some 0)
   \<and> varnode_compare_level_to_normalized_score example_upstream (Some 4) = Inr (Some 1)
   \<and> step (DataTypeCompareLevel_range example_upstream) = 1
   \<and> start (DataTypeCompareLevel_range example_upstream) + 1
       < stop (DataTypeCompareLevel_range example_upstream)
   \<and> datatype_compare_level_to_normalized_score example_upstream None = Inr None
   \<and> datatype_compare_level_to_normalized_score example_upstream (Some 0) = Inr (Some 0)
   \<and> datatype_compare_level_to_normalized_score example_upstream (Some 3) = Inr (Some 1)"
proof -
  have v: "step (VarnodeCompareLevel_range example_upstream) = 1"
    "start (VarnodeCompareLevel_range example_upstream) + 1
       < stop (VarnodeCompareLevel_range example_upstream)"
    by (simp_all add: example_upstream_def)
  have d: "step (DataTypeCompareLevel_range example_upstream) = 1"
    "start (DataTypeCompareLevel_range example_upstream) + 1
       < stop (DataTypeCompareLevel_range example_upstream)"
    by (simp_all add: example_upstream_def)
  have sv: "start (VarnodeCompareLevel_range example_upstream) = 0"
    "stop (VarnodeCompareLevel_range example_upstream) = 5"
    "start (DataTypeCompareLevel_range example_upstream) = 0"
    "stop (DataTypeCompareLevel_range example_upstream) = 4"
    by (simp_all add: example_upstream_def)
  from normalized_score_of_scale [of "VarnodeCompareLevel_range example_upstream" example_upstream
      "varnode_compare_level_to_normalized_score example_upstream", OF _ v]
  have a: "varnode_compare_level_to_normalized_score example_upstream None = Inr None
   \<and> varnode_compare_level_to_normalized_score example_upstream (Some 0) = Inr (Some 0)
   \<and> varnode_compare_level_to_normalized_score example_upstream (Some 4) = Inr (Some 1)"
    by (simp add: sv)
  from normalized_score_of_scale [of "DataTypeCompareLevel_range example_upstream" example_upstream
      "datatype_compare_level_to_normalized_score example_upstream", OF _ d]
  have b: "datatype_compare_level_to_normalized_score example_upstream None = Inr None
   \<and> datatype_compare_level_to_normalized_score example_upstream (Some 0) = Inr (Some 0)
   \<and> datatype_compare_level_to_normalized_score example_upstream (Some 3) = Inr (Some 1)"
    by (simp add: sv)
  from v d a b show ?thesis by blast
qed

section \<open>Averages over no record\<close>

text \<open>
  Claim C6: for every comparison, granularity and metatype, when no comparable
  varnode compare record is selected, the average compare level is None and the
  average compare score is None, and no exception is raised.
\<close>

theorem empty_average_is_None:
  "(select_comparable_varnode_compare_records U cmp primitive = [] \<longrightarrow>
      varnodes_avg_compare_level U cmp primitive = Inr None
      \<and> varnodes_avg_compare_score U cmp primitive = Inr None)
   \<and> (select_comparable_varnode_compare_records_metatype' U cmp metatype primitive = [] \<longrightarrow>
      varnodes_avg_compare_level_metatype U cmp metatype primitive = Inr None
      \<and> varnodes_avg_compare_score_metatype U cmp metatype primitive = Inr None)"
  by (simp add: varnodes_avg_compare_level_def varnodes_avg_compare_score_def
      varnodes_avg_compare_level_metatype_def varnodes_avg_compare_score_metatype_def
      varnodes_avg_compare_level'_def varnode_compare_level_to_normalized_score_def
      normalize_range_def)

theorem empty_average_is_None_witness:
  "select_comparable_varnode_compare_records example_upstream register_only_cmp False = []
   \<and> varnodes_avg_compare_level example_upstream register_only_cmp False = Inr None
   \<and> varnodes_avg_compare_score example_upstream register_only_cmp False = Inr None
   \<and> select_comparable_varnode_compare_records_metatype' example_upstream example_cmp 4 False = []
   \<and> varnodes_avg_compare_level_metatype example_upstream example_cmp 4 False = Inr None
   \<and> varnodes_avg_compare_score_metatype example_upstream example_cmp 4 False = Inr None"
proof -
  have e: "select_comparable_varnode_compare_records example_upstream register_only_cmp False = []"
    by (simp add: filter_defs example_defs)
  have m: "select_comparable_varnode_compare_records_metatype' example_upstream example_cmp 4 False = []"
    by (simp add: select_comparable_varnode_compare_records_metatype'_def filter_defs example_defs)
  from empty_average_is_None [of example_upstream register_only_cmp False 4] e
    empty_average_is_None [of example_upstream example_cmp False 4] m
  show ?thesis by blast
qed

section \<open>Counts per level\<close>

text \<open>
  Claim C7: for every comparison and granularity, when the compare level of every
  comparable record is a member of the varnode compare-level range, the numbers of
  comparable records matched at exactly each level of the range add up to the
  number of comparable records.
\<close>

theorem matched_at_level_counts_sum:
  assumes "\<forall>record \<in> set (select_comparable_varnode_compare_records U cmp primitive).
             get_compare_level record \<in> set (range_elems (VarnodeCompareLevel_range U))"
  shows "(\<Sum>level \<leftarrow> range_elems (VarnodeCompareLevel_range U).
            length (varnode_compare_records_matched_at_level U cmp level primitive))
         = length (select_comparable_varnode_compare_records U cmp primitive)"
  unfolding varnode_compare_records_matched_at_level_def
    varnode_compare_records_matched_at_level'_def
  using sum_list_length_filter_levels [OF distinct_range_elems assms] .

theorem matched_at_level_counts_sum_witness:
  "list_all (\<lambda>record. get_compare_level record
               \<in> set (range_elems (VarnodeCompareLevel_range example_upstream)))
     (select_comparable_varnode_compare_records example_upstream example_cmp False)
   \<and> (\<Sum>level \<leftarrow> range_elems (VarnodeCompareLevel_range example_upstream).
         length (varnode_compare_records_matched_at_level example_upstream example_cmp level False))
       = 2"
proof -
  have recs: "select_comparable_varnode_compare_records example_upstream example_cmp False
     = [mk_record stack_varnode 4 4 [], mk_record global_varnode 0 4 []]"
    by (simp add: filter_defs example_defs)
  have h: "list_all (\<lambda>record. get_compare_level record
               \<in> set (range_elems (VarnodeCompareLevel_range example_upstream)))
     (select_comparable_varnode_compare_records example_upstream example_cmp False)"
    by (simp add: recs example_range_elems mk_record_def)
  then have "\<forall>record \<in> set (select_comparable_varnode_compare_records example_upstream
                 example_cmp False).
             get_compare_level record \<in> set (range_elems (VarnodeCompareLevel_range example_upstream))"
    by (simp only: list_all_iff)
  from matched_at_level_counts_sum [OF this] h show ?thesis
    by (simp add: recs)
qed

section \<open>Base filters\<close>

text \<open>
  Claim C8: a variable is eligible iff it is not a parameter and has a single
  location; a varnode is eligible iff its address type is ABSOLUTE or STACK and it
  has no parent variable or its parent variable is eligible.
\<close>

theorem base_filters_eligibility:
  "(variable_base_filter v \<longleftrightarrow> \<not> is_param v \<and> is_single_loc v)
   \<and> (varnode_base_filter n \<longleftrightarrow>
        (get_addrtype (get_addr n) = ABSOLUTE \<or> get_addrtype (get_addr n) = STACK)
        \<and> (get_var n = None \<or> (\<exists>w. get_var n = Some w \<and> variable_base_filter w)))"
  by (cases "get_var n") (auto simp: variable_base_filter_def varnode_base_filter_def)

theorem base_filters_eligibility_witness:
  "variable_base_filter local_variable \<and> \<not> variable_base_filter param_variable
   \<and> varnode_base_filter stack_varnode \<and> varnode_base_filter global_varnode
   \<and> \<not> varnode_base_filter register_varnode \<and> \<not> varnode_base_filter param_varnode"
  using base_filters_eligibility [of local_variable stack_varnode]
    base_filters_eligibility [of param_variable global_varnode]
    base_filters_eligibility [of local_variable register_varnode]
    base_filters_eligibility [of local_variable param_varnode]
  by (simp add: example_defs)

section \<open>Equality of Metric objects\<close>

text \<open>
  Claim C9 says that two Metric objects are equal and have the same hash iff their
  compute functions are equal. The code defines the hash from the compute function
  and leaves equality as identity: two Metric objects constructed with different
  display names and the same compute function have the same hash and are not equal.
\<close>

theorem metric_same_compute_not_equal:
  "(case Metric_init 0 ''Bytes found'' f of
      (m1, next_ident) \<Rightarrow>
        (case Metric_init next_ident ''Found bytes'' f of
           (m2, _) \<Rightarrow>
             compute m1 = compute m2 \<and> Metric_hash h m1 = Metric_hash h m2
             \<and> \<not> Metric_eq m1 m2 \<and> Metric_eq m1 m1))"
  by (simp add: Metric_init_def Metric_hash_def Metric_eq_def)

section \<open>Found and missed functions\<close>

text \<open>
  Claim C10: for every comparison, each function compare record contributes its
  function to exactly one of \<open>functions_found\<close> and \<open>functions_missed\<close>: the two
  lists together hold the functions of all records, and their lengths add up to the
  number of function compare records.
\<close>

theorem functions_found_missed_partition:
  "length (functions_found U cmp) + length (functions_missed U cmp)
     = length (select_function_compare_records U cmp)
   \<and> mset (functions_found U cmp) + mset (functions_missed U cmp)
     = mset (map get_unoptimized_function (select_function_compare_records U cmp))"
  unfolding functions_found_def functions_missed_def
  using mset_map_filter_compl [of get_unoptimized_function is_comparison]
  by (simp add: sum_length_filter_compl)

theorem functions_found_missed_partition_witness:
  "functions_found example_upstream example_cmp = [''main'']
   \<and> functions_missed example_upstream example_cmp = [''helper'']
   \<and> length (functions_found example_upstream example_cmp)
       + length (functions_missed example_upstream example_cmp) = 2"
proof -
  have n: "length (select_function_compare_records example_upstream example_cmp) = 2"
    by (simp add: example_defs)
  have "functions_found example_upstream example_cmp = [''main'']"
    by (simp add: functions_found_def example_defs)
  moreover have "functions_missed example_upstream example_cmp = [''helper'']"
    by (simp add: functions_missed_def example_defs)
  ultimately show ?thesis
    using functions_found_missed_partition [of example_upstream example_cmp] n by simp
qed

end
